theory Spec2Isabelle
  imports Complex_Main "HOL-Library.Sublist" "HOL-Library.AList"
begin

section \<open>Python values and library behaviour used by the annotation app\<close>

text \<open>
  The program is one Python script, \<^verbatim>\<open>make_data_privacy_rag_web_app.py\<close>: four
  validators, two prompt builders, two persistence functions and a top-level Streamlit
  flow. A Python \<^verbatim>\<open>str\<close> is modelled as a \<^typ>\<open>string\<close> whose characters stand for
  the code points below 256.
\<close>

subsection \<open>Strings\<close>

text \<open>
  \<^verbatim>\<open>str.isspace\<close> on the code points below 256: tab, line feed, vertical tab, form
  feed, carriage return, the four separators 0x1C..0x1F, space, next-line (0x85) and
  no-break space (0xA0).
\<close>

definition isspace :: "char \<Rightarrow> bool" where
  "isspace c = (of_char c \<in> {9, 10, 11, 12, 13, 28, 29, 30, 31, 32, 133, 160 :: nat})"

text \<open>\<^verbatim>\<open>x.strip()\<close>: whitespace removed at both ends.\<close>

definition strip :: "string \<Rightarrow> string" where
  "strip s = rev (dropWhile isspace (rev (dropWhile isspace s)))"

text \<open>\<^verbatim>\<open>sub in s\<close> on two strings: \<open>sub\<close> occurs in \<open>s\<close> as a contiguous block.\<close>

fun str_contains :: "string \<Rightarrow> string \<Rightarrow> bool" where
  "str_contains sub [] = (sub = [])"
| "str_contains sub (c # cs) = (prefix sub (c # cs) \<or> str_contains sub cs)"

text \<open>\<^verbatim>\<open>str(n)\<close> on an integer: decimal digits, a minus sign when negative.\<close>

fun str_nat :: "nat \<Rightarrow> string" where
  "str_nat n =
     (if n < 10 then [''0123456789'' ! n]
      else str_nat (n div 10) @ [''0123456789'' ! (n mod 10)])"

declare str_nat.simps [simp del]

definition str_int :: "int \<Rightarrow> string" where
  "str_int i = (if i < 0 then ''-'' @ str_nat (nat (- i)) else str_nat (nat i))"

subsection \<open>Values\<close>

text \<open>
  A Python float as \<^verbatim>\<open>json.loads\<close> and \<^verbatim>\<open>time()\<close> produce it: a finite value
  (every finite double is a rational), an infinity, or NaN.
\<close>

datatype pyfloat = Finite rat | PosInf | NegInf | NaN

text \<open>
  The Python values the script handles are those \<^verbatim>\<open>json.loads\<close> can return, and
  \<^verbatim>\<open>False\<close>: \<^verbatim>\<open>None\<close>, booleans, integers, floats, strings, lists and dicts with
  string keys. A dict is an association list in insertion order, with distinct keys.
\<close>

datatype json =
    JNull
  | JBool bool
  | JInt int
  | JFloat pyfloat
  | JStr string
  | JList "json list"
  | JObj "(string \<times> json) list"

datatype py_error =
  TypeError | KeyError | ValueError | IsADirectoryError | FileNotFoundError | JSONDecodeError

text \<open>Truth value testing, as \<^verbatim>\<open>if v:\<close> and \<^verbatim>\<open>not v\<close> do it.\<close>

fun truthy :: "json \<Rightarrow> bool" where
  "truthy JNull = False"
| "truthy (JBool b) = b"
| "truthy (JInt i) = (i \<noteq> 0)"
| "truthy (JFloat f) = (f \<noteq> Finite 0)"
| "truthy (JStr s) = (s \<noteq> [])"
| "truthy (JList xs) = (xs \<noteq> [])"
| "truthy (JObj kvs) = (kvs \<noteq> [])"

text \<open>
  \<^verbatim>\<open>k in v\<close> for a string \<open>k\<close>: key membership on a dict, element membership on a
  list (only a string element equals \<open>k\<close>), substring test on a string, and
  \<^verbatim>\<open>TypeError\<close> (argument is not iterable) on \<^verbatim>\<open>None\<close>, booleans and numbers.
\<close>

fun py_in :: "string \<Rightarrow> json \<Rightarrow> py_error + bool" where
  "py_in k (JObj kvs) = Inr (k \<in> set (map fst kvs))"
| "py_in k (JList xs) = Inr (JStr k \<in> set xs)"
| "py_in k (JStr s) = Inr (str_contains k s)"
| "py_in k JNull = Inl TypeError"
| "py_in k (JBool b) = Inl TypeError"
| "py_in k (JInt i) = Inl TypeError"
| "py_in k (JFloat f) = Inl TypeError"

text \<open>
  \<^verbatim>\<open>v[k]\<close> for a string \<open>k\<close>: the value under the key on a dict (\<^verbatim>\<open>KeyError\<close>
  when missing), \<^verbatim>\<open>TypeError\<close> on everything else (lists and strings take integer
  indices, the rest is not subscriptable).
\<close>

fun py_getitem :: "json \<Rightarrow> string \<Rightarrow> py_error + json" where
  "py_getitem (JObj kvs) k = (case map_of kvs k of None \<Rightarrow> Inl KeyError | Some v \<Rightarrow> Inr v)"
| "py_getitem v k = Inl TypeError"

subsection \<open>What the page shows\<close>

text \<open>
  Each Streamlit call renders one element; a run of the script is observed as the list
  of elements rendered, in order, each with its text, label or data (keys, placeholders
  and layout options are left out). \<open>Error\<close> is \<^verbatim>\<open>streamlit.error\<close>. Values the
  widgets hand back to the script are inputs of the model.
\<close>

datatype ui =
    Title string
  | Markdown string
  | TextInput string
  | SetPageConfig
  | Sidebar ui
  | DownloadButton string
  | DataEditor json
  | Error string
  | Code string
  | TextArea string
  | StJson json
  | Button string

section \<open>Validators\<close>

subsection \<open>\<^verbatim>\<open>check_categories\<close>\<close>

text \<open>
  The function rebinds its local name \<^verbatim>\<open>categories\<close> twice, to new lists; it calls
  no mutating method on its argument. \<^verbatim>\<open>list(set(...))\<close> has an unspecified order, and
  only its length is read: \<open>remdups\<close> has that length.
\<close>

definition check_categories :: "string list \<Rightarrow> bool \<times> ui list" where
  "check_categories categories =
     (let categories1 = map strip (filter (\<lambda>x. x \<noteq> [] \<and> strip x \<noteq> []) categories);
          categories2 = remdups categories1
      in if length categories2 < 4 then
           (False, [Error ''You must choose at least 4 categories''])
         else if length categories2 > 7 then
           (False, [Error ''You must choose at most 7 categories''])
         else (True, []))"

subsection \<open>\<^verbatim>\<open>check_article_data\<close>\<close>

text \<open>
  \<^verbatim>\<open>json.loads\<close> belongs to the Python library: the validators take it as the
  parameter \<open>loads\<close>, with \<open>None\<close> standing for a call that raises. The bare
  \<^verbatim>\<open>except:\<close> catches whatever it raises. The two \<^verbatim>\<open>in\<close> tests are outside the
  \<^verbatim>\<open>try\<close>: what they raise leaves the function.
  The result is the value returned (\<^verbatim>\<open>False\<close> is \<open>JBool False\<close>) and the
  messages shown, or the exception raised.
\<close>

definition check_article_data ::
  "(string \<Rightarrow> json option) \<Rightarrow> string \<Rightarrow> py_error + json \<times> ui list" where
  "check_article_data loads raw =
     (case loads raw of
        None \<Rightarrow> Inr (JBool False, [Error ''You must provide a valid JSON here.''])
      | Some article_data \<Rightarrow>
          (case py_in ''article_text'' article_data of
             Inl e \<Rightarrow> Inl e
           | Inr False \<Rightarrow> Inr (JBool False, [Error ''You must provide an article text.''])
           | Inr True \<Rightarrow>
               (case py_in ''sensitive_category_to_instances'' article_data of
                  Inl e \<Rightarrow> Inl e
                | Inr False \<Rightarrow>
                    Inr (JBool False,
                      [Error ''You must provide a sensitive_category_to_instances mapping.''])
                | Inr True \<Rightarrow> Inr (article_data, []))))"

subsection \<open>\<^verbatim>\<open>check_qa_data\<close>\<close>

text \<open>A list comprehension whose element expression may raise: the first raise ends it.\<close>

fun list_comp :: "('a \<Rightarrow> py_error + 'b) \<Rightarrow> 'a list \<Rightarrow> py_error + 'b list" where
  "list_comp f [] = Inr []"
| "list_comp f (x # xs) =
     (case f x of
        Inl e \<Rightarrow> Inl e
      | Inr y \<Rightarrow> (case list_comp f xs of Inl e \<Rightarrow> Inl e | Inr ys \<Rightarrow> Inr (y # ys)))"

text \<open>\<^verbatim>\<open>'question_text' in x and 'answer_text' in x\<close>, the second test only after the first.\<close>

definition has_qa_keys :: "json \<Rightarrow> py_error + bool" where
  "has_qa_keys x =
     (case py_in ''question_text'' x of
        Inl e \<Rightarrow> Inl e
      | Inr False \<Rightarrow> Inr False
      | Inr True \<Rightarrow> py_in ''answer_text'' x)"

text \<open>
  The comprehension inside \<^verbatim>\<open>all([...])\<close> is a list: every element is tested before
  \<^verbatim>\<open>all\<close> looks at any result.
\<close>

definition check_qa_data ::
  "(string \<Rightarrow> json option) \<Rightarrow> string \<Rightarrow> py_error + json \<times> ui list" where
  \<open>check_qa_data loads raw =
     (case loads raw of
        None \<Rightarrow> Inr (JBool False, [Error ''You must provide a valid JSON here.''])
      | Some article_data \<Rightarrow>
          (case article_data of
             JList xs \<Rightarrow>
               (case list_comp has_qa_keys xs of
                  Inl e \<Rightarrow> Inl e
                | Inr bs \<Rightarrow>
                    if \<not> list_all (\<lambda>b. b) bs then
                      Inr (JBool False,
                        [Error ''Every Q&A pair must have a "question_text" and an "answer_text" entry.''])
                    else Inr (article_data, []))
           | _ \<Rightarrow> Inr (JBool False, [Error ''You must provide a list of Q&A pairs.''])))\<close>

subsection \<open>\<^verbatim>\<open>check_metadata\<close>\<close>

text \<open>\<^verbatim>\<open>data.get('LLM', None)\<close> is the value under the key, or \<^verbatim>\<open>None\<close>.\<close>

definition check_metadata :: "(string \<times> json) list \<Rightarrow> json \<times> ui list" where
  "check_metadata data =
     (if \<not> truthy (case map_of data ''LLM'' of None \<Rightarrow> JNull | Some v \<Rightarrow> v) then
        (JBool False, [Error ''You must provide the LLM name.''])
      else (JObj data, []))"

text \<open>
  The values \<^verbatim>\<open>in\<close> accepts on its right: dicts, lists and strings. The others are
  \<^verbatim>\<open>None\<close>, booleans and numbers.
\<close>

fun iterable :: "json \<Rightarrow> bool" where
  "iterable (JObj kvs) = True"
| "iterable (JList xs) = True"
| "iterable (JStr s) = True"
| "iterable v = False"

text \<open>
  The specification's "valid JSON" is the grammar of RFC 8259: a JSON text is one value between
  optional whitespace (space, tab, line feed, carriage return), and a value is an
  object, an array, a string, a number or one of the names \<^verbatim>\<open>true\<close>, \<^verbatim>\<open>false\<close>,
  \<^verbatim>\<open>null\<close>. So the first character after the whitespace is one of
  \<^verbatim>\<open>{ [ " - 0..9 t f n\<close>: \<open>json_text_start\<close> is this necessary condition, and a text
  without it is not valid JSON. \<^verbatim>\<open>json.loads\<close> is more lenient than the grammar: it
  also reads \<^verbatim>\<open>NaN\<close>, \<^verbatim>\<open>Infinity\<close> and \<^verbatim>\<open>-Infinity\<close>, as floats.
\<close>

definition json_text_start :: "string \<Rightarrow> bool" where
  \<open>json_text_start s =
     (case dropWhile (\<lambda>c. c \<in> set [CHR '' '', CHR 0x09, CHR 0x0A, CHR 0x0D]) s of
        [] \<Rightarrow> False
      | c # cs \<Rightarrow> c \<in> set ''{["-0123456789tfn'')\<close>

text \<open>
  A finite table of texts with the values \<^verbatim>\<open>json.loads\<close> returns for them, to
  instantiate the parser in the examples. The examples look up its entries, and the
  text \<^verbatim>\<open>{oops\<close>, which \<^verbatim>\<open>json.loads\<close> rejects as the table does.
\<close>

definition loads_table :: "string \<Rightarrow> json option" where
  \<open>loads_table = map_of
     [(''123'', JInt 123),
      (''NaN'', JFloat NaN),
      (''[1]'', JList [JInt 1]),
      (''[]'', JList []),
      (''"article_text sensitive_category_to_instances"'',
         JStr ''article_text sensitive_category_to_instances''),
      (''{"article_text": "t", "sensitive_category_to_instances": {}}'',
         JObj [(''article_text'', JStr ''t''), (''sensitive_category_to_instances'', JObj [])]),
      (''[{"question_text": "q", "answer_text": "a"}]'',
         JList [JObj [(''question_text'', JStr ''q''), (''answer_text'', JStr ''a'')]])]\<close>

section \<open>Prompt builders\<close>

text \<open>
  \<^verbatim>\<open>json.dumps\<close> is the library's as well: the parameter \<open>dumps\<close>, applied to the
  \<^verbatim>\<open>indent\<close> argument (\<open>None\<close> when the call gives none) and the value.
\<close>

abbreviation nl :: string where
  "nl \<equiv> [CHR 0x0A]"

record PromptBuilder =
  article_topic :: string
  sensitive_categories :: "string list"
  num_words :: int

text \<open>
  The dict comprehension \<^verbatim>\<open>{k : 'string[]' for k in self.sensitive_categories}\<close>
  stores the keys one after the other: a repeated key keeps its first position.
\<close>

definition get_prompt :: "(nat option \<Rightarrow> json \<Rightarrow> string) \<Rightarrow> PromptBuilder \<Rightarrow> string" where
  \<open>get_prompt dumps self =
     (let json_format = JObj
            [(''article_text'', JStr ''string''),
             (''sensitive_category_to_instances'',
                JObj (fold (\<lambda>k. AList.update k (JStr ''string[]'')) (sensitive_categories self) []))]
      in ''You will help me generate some data for a content moderation experiment.'' @ nl
         @ ''Write a long (~ '' @ str_int (num_words self) @ '' words) article about ''
         @ article_topic self @ '','' @ nl
         @ ''containing examples of the following (synthetic) sensitive information:'' @ nl @ nl
         @ dumps (Some 2) (JList (map JStr (sensitive_categories self))) @ nl @ nl
         @ ''For each of the aforementioned categories, map it to the corresponding entities'' @ nl
         @ ''in the text that you generated.'' @ nl @ nl
         @ ''Of course, there is no need to explain that all of the "sensitive information"'' @ nl
         @ ''is entirely fictional and synthetic.'' @ nl @ nl
         @ ''Provide your output in the following JSON format:'' @ nl @ nl
         @ ''```json'' @ nl
         @ dumps (Some 2) json_format @ nl
         @ ''```'')\<close>

text \<open>
  \<^verbatim>\<open>build_qa_prompt\<close> ends with \<^verbatim>\<open>... + article_text\<close>: concatenating anything
  but a string to a string raises \<^verbatim>\<open>TypeError\<close>.
\<close>

definition build_qa_prompt ::
  "(nat option \<Rightarrow> json \<Rightarrow> string) \<Rightarrow> json \<Rightarrow> int \<Rightarrow> py_error + string" where
  "build_qa_prompt dumps article_text num_questions =
     (case article_text of
        JStr text \<Rightarrow>
          Inr (''Generate '' @ str_int num_questions @ '' interesting question and answer pairs ''
            @ ''about the following article.'' @ nl @ nl
            @ ''Provide your output as a JSON list, each element having the following structure''
            @ nl @ nl
            @ dumps (Some 2) (JObj [(''question_text'', JStr ''str''), (''answer_text'', JStr ''str'')])
            @ nl @ nl
            @ ''The article:'' @ nl @ nl
            @ text)
      | _ \<Rightarrow> Inl TypeError)"

section \<open>Persistence\<close>

text \<open>
  The working directory: its entries in the order \<^verbatim>\<open>os.listdir('.')\<close> gives them,
  each a text file with its contents or a directory. Names are distinct.
\<close>

datatype entry = File string | Dir

type_synonym directory = "(string \<times> entry) list"

text \<open>\<^verbatim>\<open>open(x, 'r').read()\<close>.\<close>

definition read_file :: "directory \<Rightarrow> string \<Rightarrow> py_error + string" where
  "read_file d x =
     (case map_of d x of
        Some (File text) \<Rightarrow> Inr text
      | Some Dir \<Rightarrow> Inl IsADirectoryError
      | None \<Rightarrow> Inl FileNotFoundError)"

text \<open>
  \<^verbatim>\<open>open(x, 'w+')\<close> followed by one \<^verbatim>\<open>write\<close>: the file is created, or an existing
  one replaced, with no test that it exists.
\<close>

definition write_file :: "string \<Rightarrow> string \<Rightarrow> directory \<Rightarrow> py_error + directory" where
  "write_file x text d =
     (case map_of d x of
        Some Dir \<Rightarrow> Inl IsADirectoryError
      | _ \<Rightarrow> Inr (AList.update x (File text) d))"

text \<open>\<^verbatim>\<open>s.encode('utf-8')\<close> on code points below 256: one byte below 128, two from there.\<close>

definition encode_utf8 :: "string \<Rightarrow> string" where
  "encode_utf8 s =
     concat (map (\<lambda>c. if (of_char c :: nat) < 128 then [c]
                       else [char_of (192 + (of_char c :: nat) div 64),
                             char_of (128 + (of_char c :: nat) mod 64)]) s)"

text \<open>
  \<^verbatim>\<open>get_articles_data\<close>. Nothing is caught here: a matching entry that is a
  directory, or a file \<^verbatim>\<open>json.loads\<close> rejects, ends the call with the exception.
\<close>

definition get_articles_data ::
  "(string \<Rightarrow> json option) \<Rightarrow> (nat option \<Rightarrow> json \<Rightarrow> string) \<Rightarrow> directory \<Rightarrow> py_error + string" where
  "get_articles_data loads dumps d =
     (let files = map fst d;
          files = filter (str_contains ''annotated-synthetic-article'') files
      in case list_comp
              (\<lambda>x. case read_file d x of
                      Inl e \<Rightarrow> Inl e
                    | Inr text \<Rightarrow>
                        (case loads text of None \<Rightarrow> Inl JSONDecodeError | Some v \<Rightarrow> Inr v))
              files of
           Inl e \<Rightarrow> Inl e
         | Inr data \<Rightarrow> Inr (encode_utf8 (dumps None (JList data))))"

text \<open>
  \<^verbatim>\<open>random.randint(a, b)\<close> is the library's \<^verbatim>\<open>randrange(a, b + 1)\<close>: it raises
  \<^verbatim>\<open>ValueError\<close> on an empty range and otherwise returns \<^verbatim>\<open>a + _randbelow(b + 1 - a)\<close>,
  where \<^verbatim>\<open>_randbelow(k)\<close> is an integer from \<open>0\<close> to \<open>k - 1\<close>. The generator is
  modelled by the natural number \<open>r\<close> it produces at the call, reduced into that range:
  the result lies between \<open>a\<close> and \<open>b\<close>, both ends included, and each such integer is
  the result for some \<open>r\<close>.
\<close>

definition randbelow :: "nat \<Rightarrow> nat \<Rightarrow> nat" where
  "randbelow k r = r mod k"

definition randint :: "int \<Rightarrow> int \<Rightarrow> nat \<Rightarrow> py_error + int" where
  "randint a b r =
     (if b < a then Inl ValueError else Inr (a + int (randbelow (nat (b + 1 - a)) r)))"

text \<open>
  \<^verbatim>\<open>save_article_data\<close>; \<open>r\<close> is what the generator produces at its
  \<^verbatim>\<open>random.randint(0, 10000)\<close>. \<open>save_file_name\<close> is the file name expression of
  line 150 for the integer drawn.
\<close>

definition save_file_name :: "int \<Rightarrow> string" where
  "save_file_name n = ''annotated-synthetic-article'' @ str_int n @ ''.json''"

definition save_article_data ::
  "(nat option \<Rightarrow> json \<Rightarrow> string) \<Rightarrow> nat \<Rightarrow> json \<Rightarrow> directory \<Rightarrow> py_error + directory" where
  "save_article_data dumps r data d =
     (case randint 0 10000 r of
        Inl e \<Rightarrow> Inl e
      | Inr n \<Rightarrow> write_file (save_file_name n) (dumps None data) d)"

text \<open>A directory for the examples: two entries match the name pattern, one does not.\<close>

definition sample_directory :: directory where
  "sample_directory =
     [(''annotated-synthetic-article7.json'', File ''[]''),
      (''notes.txt'', File ''to do''),
      (''old-annotated-synthetic-article'', File ''123'')]"

section \<open>The page\<close>

text \<open>
  The top-level script runs once per interaction, top to bottom. Its inputs are what the
  widgets return on that run; \<open>now\<close> is what \<^verbatim>\<open>time()\<close> returns, \<open>r\<close> what
  the random generator produces at the save, \<open>d\<close> the working directory. A run yields the
  elements rendered, the directory afterwards, and the exception that ended it, if any.
  The script is split at its nested \<^verbatim>\<open>if\<close>s, innermost block first.
\<close>

record inputs =
  input_topic :: string
  input_categories :: "string list"
  input_article_data :: string
  input_qa_data :: string
  input_edited_qas :: json
  input_metadata :: "(string \<times> json) list"
  input_submit :: bool

type_synonym outcome = "ui list \<times> directory \<times> py_error option"

text \<open>The dict literal handed to \<^verbatim>\<open>save_article_data\<close> (lines 249 to 257).\<close>

definition annotated_record ::
  "json \<Rightarrow> json \<Rightarrow> json \<Rightarrow> (string \<times> json) list \<Rightarrow> pyfloat \<Rightarrow> json" where
  "annotated_record article_data edited_qas qas metadata now =
     JObj [(''article_data'', article_data),
           (''edited_qas'', edited_qas),
           (''qas'', qas),
           (''metadata'', JObj (AList.update ''created_at'' (JFloat now) metadata))]"

text \<open>Lines 245 to 257: the metadata check, the button, the save.\<close>

definition submit_step ::
  "(nat option \<Rightarrow> json \<Rightarrow> string) \<Rightarrow> inputs \<Rightarrow> pyfloat \<Rightarrow> nat \<Rightarrow> directory
     \<Rightarrow> json \<Rightarrow> json \<Rightarrow> json \<Rightarrow> outcome" where
  "submit_step dumps inp now r d article_data qas edited_qas =
     (case check_metadata (input_metadata inp) of
        (ok, shown) \<Rightarrow>
          if truthy ok then
            if input_submit inp then
              (case save_article_data dumps r
                      (annotated_record article_data edited_qas qas (input_metadata inp) now) d of
                 Inl e \<Rightarrow> (shown @ [Button ''Submit''], d, Some e)
               | Inr d' \<Rightarrow> (shown @ [Button ''Submit''], d', None))
            else (shown @ [Button ''Submit''], d, None)
          else (shown, d, None))"

text \<open>
  \<^verbatim>\<open>{**qa_pair, 'completeness_keywords': '', 'relevant_sensitive_categories': ''}\<close>:
  unpacking anything but a dict raises \<^verbatim>\<open>TypeError\<close>.
\<close>

definition extra_cols :: "json \<Rightarrow> py_error + json" where
  "extra_cols qa_pair =
     (case qa_pair of
        JObj kvs \<Rightarrow>
          Inr (JObj (AList.update ''relevant_sensitive_categories'' (JStr [])
                      (AList.update ''completeness_keywords'' (JStr []) kvs)))
      | _ \<Rightarrow> Inl TypeError)"

text \<open>
  The comprehension over \<^verbatim>\<open>qas\<close> (lines 221 to 225). \<^verbatim>\<open>qas\<close> is truthy here; were
  it not a list, the comprehension would raise \<^verbatim>\<open>TypeError\<close> as well (a number is not
  iterable, and the keys of a dict and the characters of a string cannot be unpacked).
\<close>

definition qas_with_extra_cols :: "json \<Rightarrow> py_error + json list" where
  "qas_with_extra_cols qas =
     (case qas of JList xs \<Rightarrow> list_comp extra_cols xs | _ \<Rightarrow> Inl TypeError)"

text \<open>
  Lines 215 to 243. \<^verbatim>\<open>qas[0].keys()\<close> on line 233 cannot raise: the comprehension
  before it has unpacked every element of the non-empty list as a dict.
\<close>

definition annotation_step ::
  "(nat option \<Rightarrow> json \<Rightarrow> string) \<Rightarrow> inputs \<Rightarrow> pyfloat \<Rightarrow> nat \<Rightarrow> directory
     \<Rightarrow> json \<Rightarrow> json \<Rightarrow> outcome" where
  "annotation_step dumps inp now r d article_data qas =
     (let shown1 =
            [Markdown ''## Identify sensitive data'',
             Markdown ''Reword the questions and answers to remove all sensitive data.'',
             Markdown ''### Sensitive data index'',
             Markdown ''To check the sensitive data.'']
      in case py_getitem article_data ''sensitive_category_to_instances'' of
           Inl e \<Rightarrow> (shown1, d, Some e)
         | Inr index \<Rightarrow>
             (case qas_with_extra_cols qas of
                Inl e \<Rightarrow> (shown1 @ [StJson index], d, Some e)
              | Inr rows \<Rightarrow>
                  (case submit_step dumps inp now r d article_data qas (input_edited_qas inp) of
                     (shown2, d', e) \<Rightarrow>
                       (shown1
                        @ [StJson index,
                           DataEditor (JList rows),
                           Markdown ''## Submit'',
                           Markdown ''Before submitting, tell us what LLM you used and optional generation parameters, and submit.'',
                           DataEditor (JObj [(''LLM'', JStr [])])]
                        @ shown2, d', e))))"

text \<open>Lines 203 to 213, and the \<^verbatim>\<open>if\<close> on \<^verbatim>\<open>check_qa_data\<close>.\<close>

definition qa_step ::
  "(string \<Rightarrow> json option) \<Rightarrow> (nat option \<Rightarrow> json \<Rightarrow> string) \<Rightarrow> inputs \<Rightarrow> pyfloat \<Rightarrow> nat
     \<Rightarrow> directory \<Rightarrow> json \<Rightarrow> outcome" where
  "qa_step loads dumps inp now r d article_data =
     (let shown1 =
            [Markdown ''## Q&A Prompt'',
             Markdown ''Copy-paste the following into your LLM and come back here.'']
      in case py_getitem article_data ''article_text'' of
           Inl e \<Rightarrow> (shown1, d, Some e)
         | Inr article_text \<Rightarrow>
             (case build_qa_prompt dumps article_text 10 of
                Inl e \<Rightarrow> (shown1, d, Some e)
              | Inr prompt \<Rightarrow>
                  (let shown2 = shown1
                         @ [Code prompt,
                            Markdown ''## Generated Q&A Pairs'',
                            Markdown ''Paste the output of the prompt here:'',
                            TextArea ''_Generated Q&A Pairs_'']
                   in case check_qa_data loads (input_qa_data inp) of
                        Inl e \<Rightarrow> (shown2, d, Some e)
                      | Inr (qas, shown3) \<Rightarrow>
                          if truthy qas then
                            (case annotation_step dumps inp now r d article_data qas of
                               (shown4, d', e) \<Rightarrow> (shown2 @ shown3 @ shown4, d', e))
                          else (shown2 @ shown3, d, None))))"

text \<open>Lines 188 to 201, and the \<^verbatim>\<open>if\<close> on \<^verbatim>\<open>check_article_data\<close>.\<close>

definition categories_step ::
  "(string \<Rightarrow> json option) \<Rightarrow> (nat option \<Rightarrow> json \<Rightarrow> string) \<Rightarrow> inputs \<Rightarrow> pyfloat \<Rightarrow> nat
     \<Rightarrow> directory \<Rightarrow> outcome" where
  "categories_step loads dumps inp now r d =
     (case check_categories (input_categories inp) of
        (ok, shown1) \<Rightarrow>
          if ok then
            (let prompt = get_prompt dumps
                   \<lparr>article_topic = input_topic inp,
                    sensitive_categories = input_categories inp,
                    num_words = 1000\<rparr>;
                 shown2 = shown1
                   @ [Markdown ''## Article Generation prompt'',
                      Markdown (nl
                        @ ''        Please review the following prompt before copy-pasting it into your ''
                        @ nl
                        @ ''        favorite LLM chat service. When you're done, come back here.''
                        @ nl @ ''        ''),
                      Code prompt,
                      Markdown ''## Generated Article'',
                      Markdown ''Paste the output of the prompt here:'',
                      TextArea ''_Generated article data_'']
             in case check_article_data loads (input_article_data inp) of
                  Inl e \<Rightarrow> (shown2, d, Some e)
                | Inr (article_data, shown3) \<Rightarrow>
                    if truthy article_data then
                      (case qa_step loads dumps inp now r d article_data of
                         (shown4, d', e) \<Rightarrow> (shown2 @ shown3 @ shown4, d', e))
                    else (shown2 @ shown3, d, None))
          else (shown1, d, None))"

text \<open>Lines 155 to 186: the heading, the topic field, the sidebar with the export.\<close>

definition page ::
  "(string \<Rightarrow> json option) \<Rightarrow> (nat option \<Rightarrow> json \<Rightarrow> string) \<Rightarrow> inputs \<Rightarrow> pyfloat \<Rightarrow> nat
     \<Rightarrow> directory \<Rightarrow> outcome" where
  \<open>page loads dumps inp now r d =
     (let shown1 =
            [Title ''Data Annotation'',
             Markdown (nl
               @ ''Come up with one topic that can contain sensitive data. '' @ nl
               @ ''The topic will be used to generate a synthetic article. '' @ nl
               @ ''Be creative with your topic!'' @ nl),
             TextInput ''_Topic choice_'',
             SetPageConfig,
             Sidebar (Markdown ''# Download Annotated Data'')]
      in case get_articles_data loads dumps d of
           Inl e \<Rightarrow> (shown1, d, Some e)
         | Inr data \<Rightarrow>
             if input_topic inp \<noteq> [] then
               (case categories_step loads dumps inp now r d of
                  (shown2, d', e) \<Rightarrow>
                    (shown1
                     @ [Sidebar (DownloadButton data),
                        Markdown (''Come up with at least 4 categories of personal information that should appear in a synthetic article about "''
                          @ input_topic inp @ ''".''),
                        DataEditor (JList [JStr ''Names of ...''])]
                     @ shown2, d', e))
             else (shown1 @ [Sidebar (DownloadButton data)], d, None))\<close>

text \<open>
  Widget values for the examples: padded, repeated and blank category rows, an article
  document, the empty Q&A list, and a metadata table with a row the user named
  \<^verbatim>\<open>created_at\<close>.
\<close>

definition sample_inputs :: inputs where
  \<open>sample_inputs =
     \<lparr>input_topic = ''a medical record'',
      input_categories = ['' Names'', ''Names'', ''Dates'', ''Diagnoses'', ''Addresses'', []],
      input_article_data = ''{"article_text": "t", "sensitive_category_to_instances": {}}'',
      input_qa_data = ''[]'',
      input_edited_qas = JList [],
      input_metadata = [(''LLM'', JStr ''gpt-x''), (''created_at'', JStr ''yesterday'')],
      input_submit = True\<rparr>\<close>

section \<open>Properties\<close>

subsection \<open>Strings\<close>

lemma str_contains_sublist: "str_contains sub s \<longleftrightarrow> sublist sub s"
  by (induction s) (auto simp: sublist_Cons_right)

lemma strip_Nil: "strip [] = []"
  by (simp add: strip_def)

subsection \<open>Category validation\<close>

lemma cleaned_categories_set:
  "set (map strip (filter (\<lambda>x. x \<noteq> [] \<and> strip x \<noteq> []) cs)) = strip ` set cs - {[]}"
  by (auto simp: strip_Nil)

lemma cleaned_categories_length:
  "length (remdups (map strip (filter (\<lambda>x. x \<noteq> [] \<and> strip x \<noteq> []) cs)))
     = card (strip ` set cs - {[]})"
  unfolding length_remdups_card_conv cleaned_categories_set ..

text \<open>
  C1. Let \<open>n\<close> be the number of distinct, trimmed, non-empty entries of the input list.
  The validator succeeds exactly when \<open>4 \<le> n \<le> 7\<close>; when \<open>n < 4\<close> it shows the
  "at least 4" message and returns \<^verbatim>\<open>False\<close>, when \<open>n > 7\<close> it shows the other,
  "at most 7" message and returns \<^verbatim>\<open>False\<close>; on success it shows nothing.
\<close>

theorem check_categories_count:
  "check_categories cs =
     (if card (strip ` set cs - {[]}) < 4 then
        (False, [Error ''You must choose at least 4 categories''])
      else if 7 < card (strip ` set cs - {[]}) then
        (False, [Error ''You must choose at most 7 categories''])
      else (True, []))
   \<and> (fst (check_categories cs) \<longleftrightarrow>
        4 \<le> card (strip ` set cs - {[]}) \<and> card (strip ` set cs - {[]}) \<le> 7)
   \<and> ''You must choose at least 4 categories'' \<noteq> ''You must choose at most 7 categories''"
  by (simp add: check_categories_def Let_def cleaned_categories_length)

subsection \<open>The two JSON validators\<close>

lemma py_in_iterable: "iterable v \<Longrightarrow> \<exists>b. py_in k v = Inr b"
  by (cases v) simp_all

lemma py_in_not_iterable: "\<not> iterable v \<Longrightarrow> py_in k v = Inl TypeError"
  by (cases v) simp_all

lemma has_qa_keys_not_iterable: "\<not> iterable x \<Longrightarrow> has_qa_keys x = Inl TypeError"
  by (simp add: has_qa_keys_def py_in_not_iterable)

lemma has_qa_keys_error: "has_qa_keys x = Inl e \<Longrightarrow> e = TypeError"
  by (cases x) (auto simp: has_qa_keys_def split: bool.splits)

lemma list_comp_raises:
  "\<exists>x\<in>set xs. \<not> iterable x \<Longrightarrow> list_comp has_qa_keys xs = Inl TypeError"
proof (induction xs)
  case Nil
  then show ?case by simp
next
  case (Cons x xs)
  show ?case
  proof (cases "has_qa_keys x")
    case (Inl e)
    then show ?thesis using has_qa_keys_error [OF Inl] by simp
  next
    case (Inr b)
    then have "iterable x" using has_qa_keys_not_iterable [of x] by auto
    with Cons.prems have "\<exists>x\<in>set xs. \<not> iterable x" by auto
    then show ?thesis using Cons.IH Inr by simp
  qed
qed

lemma list_comp_map:
  "\<forall>x\<in>set xs. f x = Inr (g x) \<Longrightarrow> list_comp f xs = Inr (map g xs)"
  by (induction xs) simp_all

lemma has_qa_keys_iterable:
  "iterable x \<Longrightarrow>
   has_qa_keys x =
     Inr (py_in ''question_text'' x = Inr True \<and> py_in ''answer_text'' x = Inr True)"
  by (cases x) (auto simp: has_qa_keys_def split: bool.splits)

lemma check_qa_data_parsed:
  assumes "loads raw = Some (JList xs)" and "\<forall>x\<in>set xs. iterable x"
  shows \<open>check_qa_data loads raw =
     (if list_all (\<lambda>x. py_in ''question_text'' x = Inr True \<and> py_in ''answer_text'' x = Inr True) xs
      then Inr (JList xs, [])
      else Inr (JBool False,
             [Error ''Every Q&A pair must have a "question_text" and an "answer_text" entry.'']))\<close>
proof -
  let ?both = "\<lambda>x. py_in ''question_text'' x = Inr True \<and> py_in ''answer_text'' x = Inr True"
  have "\<forall>x\<in>set xs. has_qa_keys x = Inr (?both x)"
    using assms(2) by (simp add: has_qa_keys_iterable)
  then have "list_comp has_qa_keys xs = Inr (map ?both xs)"
    by (rule list_comp_map)
  then show ?thesis
    using assms(1) by (simp add: check_qa_data_def list_all_iff)
qed

lemma check_qa_data_not_list:
  "loads raw = Some v \<Longrightarrow> \<forall>xs. v \<noteq> JList xs \<Longrightarrow>
   check_qa_data loads raw = Inr (JBool False, [Error ''You must provide a list of Q&A pairs.''])"
  by (cases v) (simp_all add: check_qa_data_def)

lemma check_article_data_parsed:
  "loads raw = Some v \<Longrightarrow> py_in ''article_text'' v = Inr a \<Longrightarrow>
   py_in ''sensitive_category_to_instances'' v = Inr s \<Longrightarrow>
   check_article_data loads raw =
     (if \<not> a then Inr (JBool False, [Error ''You must provide an article text.''])
      else if \<not> s then
        Inr (JBool False, [Error ''You must provide a sensitive_category_to_instances mapping.''])
      else Inr (v, []))"
  by (simp add: check_article_data_def)

text \<open>
  C3, at the inputs where the code departs from it: when the text parses to
  \<^verbatim>\<open>None\<close>, a boolean or a number, \<^verbatim>\<open>'article_text' in article_data\<close> raises
  \<^verbatim>\<open>TypeError\<close>, so the validator neither shows a message about the missing key nor
  returns.
\<close>

theorem check_article_data_scalar_raises:
  "loads raw = Some v \<Longrightarrow> \<not> iterable v \<Longrightarrow> check_article_data loads raw = Inl TypeError"
  by (simp add: check_article_data_def py_in_not_iterable)

theorem check_article_data_scalar_raises_witness:
  "loads_table ''123'' = Some (JInt 123) \<and> \<not> iterable (JInt 123)
   \<and> check_article_data loads_table ''123'' = Inl TypeError"
  using check_article_data_scalar_raises [of loads_table "''123''" "JInt 123"]
  by (simp add: loads_table_def)

text \<open>
  C4, at the inputs where the code departs from it: when the text parses to a list with
  an element that is \<^verbatim>\<open>None\<close>, a boolean or a number, the key test on that element
  raises \<^verbatim>\<open>TypeError\<close>, whatever the other elements are; no message is shown and
  nothing is returned.
\<close>

theorem check_qa_data_scalar_element_raises:
  "loads raw = Some (JList xs) \<Longrightarrow> \<exists>x\<in>set xs. \<not> iterable x \<Longrightarrow>
   check_qa_data loads raw = Inl TypeError"
  by (simp add: check_qa_data_def list_comp_raises)

theorem check_qa_data_scalar_element_raises_witness:
  "loads_table ''[1]'' = Some (JList [JInt 1]) \<and> (\<exists>x\<in>set [JInt 1]. \<not> iterable x)
   \<and> check_qa_data loads_table ''[1]'' = Inl TypeError"
  using check_qa_data_scalar_element_raises [of loads_table "''[1]''" "[JInt 1]"]
  by (simp add: loads_table_def)

text \<open>
  C5, as the code has it. On a text that \<^verbatim>\<open>json.loads\<close> rejects, both validators
  return \<^verbatim>\<open>False\<close> after showing the "valid JSON" message; neither raises.
\<close>

theorem invalid_json_rejected:
  "loads raw = None \<Longrightarrow>
   check_article_data loads raw =
     Inr (JBool False, [Error ''You must provide a valid JSON here.''])
   \<and> check_qa_data loads raw =
     Inr (JBool False, [Error ''You must provide a valid JSON here.''])"
  by (simp add: check_article_data_def check_qa_data_def)

theorem invalid_json_rejected_witness:
  "loads_table ''{oops'' = None
   \<and> check_article_data loads_table ''{oops'' =
     Inr (JBool False, [Error ''You must provide a valid JSON here.''])
   \<and> check_qa_data loads_table ''{oops'' =
     Inr (JBool False, [Error ''You must provide a valid JSON here.''])"
  using invalid_json_rejected [of loads_table "''{oops''"]
  by (simp add: loads_table_def)

text \<open>
  C5 as stated fails: \<^verbatim>\<open>NaN\<close> is not valid JSON, yet \<^verbatim>\<open>json.loads\<close> returns the
  float nan for it. \<^verbatim>\<open>check_article_data\<close> then raises \<^verbatim>\<open>TypeError\<close>, and
  \<^verbatim>\<open>check_qa_data\<close> shows the message about lists, not the one about valid JSON.
\<close>

theorem nan_text_is_parsed:
  "\<not> json_text_start ''NaN''
   \<and> loads_table ''NaN'' = Some (JFloat NaN)
   \<and> check_article_data loads_table ''NaN'' = Inl TypeError
   \<and> check_qa_data loads_table ''NaN'' =
       Inr (JBool False, [Error ''You must provide a list of Q&A pairs.''])
   \<and> ''You must provide a list of Q&A pairs.'' \<noteq> ''You must provide a valid JSON here.''"
  by (simp add: json_text_start_def loads_table_def check_article_data_def check_qa_data_def)

text \<open>
  C9. The validator has no test that the parsed value is a dict. A text that parses to a
  string containing both key names passes, and the string itself is returned; the
  example is the JSON string \<^verbatim>\<open>"article_text sensitive_category_to_instances"\<close>.
\<close>

theorem check_article_data_accepts_string:
  "loads raw = Some (JStr s) \<Longrightarrow> str_contains ''article_text'' s \<Longrightarrow>
   str_contains ''sensitive_category_to_instances'' s \<Longrightarrow>
   check_article_data loads raw = Inr (JStr s, [])"
  by (simp add: check_article_data_def)

theorem check_article_data_accepts_string_witness:
  \<open>loads_table ''"article_text sensitive_category_to_instances"'' =
     Some (JStr ''article_text sensitive_category_to_instances'')
   \<and> str_contains ''article_text'' ''article_text sensitive_category_to_instances''
   \<and> str_contains ''sensitive_category_to_instances''
        ''article_text sensitive_category_to_instances''
   \<and> check_article_data loads_table ''"article_text sensitive_category_to_instances"'' =
     Inr (JStr ''article_text sensitive_category_to_instances'', [])\<close>
proof -
  have l: \<open>loads_table ''"article_text sensitive_category_to_instances"'' =
     Some (JStr ''article_text sensitive_category_to_instances'')\<close>
    by (simp add: loads_table_def)
  have a: "str_contains ''article_text'' ''article_text sensitive_category_to_instances''"
    by simp
  have s: "str_contains ''sensitive_category_to_instances''
        ''article_text sensitive_category_to_instances''"
    by simp
  show ?thesis
    using l a s
      check_article_data_accepts_string [of loads_table
        \<open>''"article_text sensitive_category_to_instances"''\<close>
        "''article_text sensitive_category_to_instances''"]
    by simp
qed

subsection \<open>Persistence\<close>

lemma randint_range:
  "a \<le> b \<Longrightarrow> \<exists>n. randint a b r = Inr n \<and> a \<le> n \<and> n \<le> b"
proof -
  assume ab: "a \<le> b"
  then have pos: "0 < nat (b + 1 - a)" by simp
  have "r mod nat (b + 1 - a) < nat (b + 1 - a)"
    using pos by (rule mod_less_divisor)
  then have "int (r mod nat (b + 1 - a)) \<le> b - a" using ab by linarith
  then show ?thesis using ab by (simp add: randint_def randbelow_def)
qed

lemma randint_reaches:
  "a \<le> n \<Longrightarrow> n \<le> b \<Longrightarrow> randint a b (nat (n - a)) = Inr n"
  by (simp add: randint_def randbelow_def)

text \<open>
  C2, as the code has it. A save opens the file \<^verbatim>\<open>annotated-synthetic-article<N>.json\<close>
  for writing, where \<open>N\<close> is the integer its \<^verbatim>\<open>random.randint(0, 10000)\<close> returns:
  \<open>0 \<le> N \<le> 10000\<close>, both ends included. Unless a directory has that name, the
  serialised record becomes the contents of that file.
\<close>

theorem save_article_data_file_name:
  "\<exists>N. randint 0 10000 r = Inr N \<and> 0 \<le> N \<and> N \<le> 10000
     \<and> save_article_data dumps r data d =
         write_file (''annotated-synthetic-article'' @ str_int N @ ''.json'') (dumps None data) d
     \<and> (map_of d (''annotated-synthetic-article'' @ str_int N @ ''.json'') \<noteq> Some Dir \<longrightarrow>
          save_article_data dumps r data d =
            Inr (AList.update (''annotated-synthetic-article'' @ str_int N @ ''.json'')
                   (File (dumps None data)) d))"
proof -
  obtain N where N: "randint 0 10000 r = Inr N" "0 \<le> N" "N \<le> 10000"
    using randint_range [of 0 10000 r] by auto
  have w: "save_article_data dumps r data d =
         write_file (''annotated-synthetic-article'' @ str_int N @ ''.json'') (dumps None data) d"
    by (simp add: save_article_data_def N(1) save_file_name_def)
  have "map_of d (''annotated-synthetic-article'' @ str_int N @ ''.json'') \<noteq> Some Dir \<longrightarrow>
          save_article_data dumps r data d =
            Inr (AList.update (''annotated-synthetic-article'' @ str_int N @ ''.json'')
                   (File (dumps None data)) d)"
    unfolding w by (auto simp: write_file_def split: option.splits entry.splits)
  with N w show ?thesis by blast
qed

theorem save_article_data_file_name_witness:
  "randint 0 10000 42 = Inr 42
   \<and> map_of [] ''annotated-synthetic-article42.json'' \<noteq> Some Dir
   \<and> save_article_data (\<lambda>indent v. ''{}'') 42 (JObj []) [] =
       Inr [(''annotated-synthetic-article42.json'', File ''{}'')]"
proof -
  have r: "randint 0 10000 42 = Inr 42"
    by (simp add: randint_def randbelow_def)
  have s: "str_int 42 = ''42''"
    by (simp add: str_int_def str_nat.simps)
  show ?thesis
    using save_article_data_file_name [of 42 "\<lambda>indent v. ''{}''" "JObj []" "[]"]
    by (simp add: r s write_file_def)
qed

text \<open>
  C2 as stated fails: when the generator produces 10000, \<^verbatim>\<open>random.randint(0, 10000)\<close>
  returns 10000, which is not below 10000, and the save writes
  \<^verbatim>\<open>annotated-synthetic-article10000.json\<close>.
\<close>

theorem save_article_data_suffix_10000:
  "randint 0 10000 10000 = Inr 10000 \<and> \<not> (10000::int) < 10000
   \<and> save_article_data (\<lambda>indent v. ''{}'') 10000 (JObj []) [] =
       Inr [(''annotated-synthetic-article10000.json'', File ''{}'')]"
  by (simp add: randint_def randbelow_def save_article_data_def write_file_def save_file_name_def
      str_int_def str_nat.simps)

text \<open>
  C6. When every directory entry whose name contains \<^verbatim>\<open>annotated-synthetic-article\<close>
  is a file that \<^verbatim>\<open>json.loads\<close> accepts, and there are \<open>K\<close> of them, the export is the
  UTF-8 encoding of \<^verbatim>\<open>json.dumps\<close> of a list of \<open>K\<close> values, the \<open>i\<close>-th being the parsed
  contents of the \<open>i\<close>-th such file.
\<close>

theorem get_articles_data_exports_all:
  assumes "\<forall>x\<in>set (filter (str_contains ''annotated-synthetic-article'') (map fst d)).
             \<exists>text v. map_of d x = Some (File text) \<and> loads text = Some v"
  shows "\<exists>data. get_articles_data loads dumps d = Inr (encode_utf8 (dumps None (JList data)))
           \<and> length data = length (filter (str_contains ''annotated-synthetic-article'') (map fst d))
           \<and> (\<forall>i<length data. \<exists>text.
                 map_of d (filter (str_contains ''annotated-synthetic-article'') (map fst d) ! i)
                   = Some (File text)
                 \<and> loads text = Some (data ! i))"
proof -
  let ?files = "filter (str_contains ''annotated-synthetic-article'') (map fst d)"
  let ?f = "\<lambda>x. case read_file d x of
                   Inl e \<Rightarrow> Inl e
                 | Inr text \<Rightarrow>
                     (case loads text of None \<Rightarrow> Inl JSONDecodeError | Some v \<Rightarrow> Inr v)"
  define g where "g x = (case map_of d x of Some (File text) \<Rightarrow> the (loads text))" for x
  have "\<forall>x\<in>set ?files. ?f x = Inr (g x)"
    using assms by (auto simp: read_file_def g_def)
  then have lc: "list_comp ?f ?files = Inr (map g ?files)"
    by (rule list_comp_map)
  have res: "get_articles_data loads dumps d = Inr (encode_utf8 (dumps None (JList (map g ?files))))"
    unfolding get_articles_data_def Let_def lc by simp
  have each: "\<forall>i<length (map g ?files). \<exists>text. map_of d (?files ! i) = Some (File text)
                 \<and> loads text = Some (map g ?files ! i)"
  proof (intro allI impI)
    fix i assume "i < length (map g ?files)"
    then have i: "i < length ?files" by simp
    then have "?files ! i \<in> set ?files" by (rule nth_mem)
    with assms obtain c v where "map_of d (?files ! i) = Some (File c)" "loads c = Some v"
      by blast
    then show "\<exists>text. map_of d (?files ! i) = Some (File text)
                 \<and> loads text = Some (map g ?files ! i)"
      using i by (simp add: g_def)
  qed
  show ?thesis
    using res each by (intro exI [of _ "map g ?files"]) simp
qed

theorem get_articles_data_exports_all_witness:
  "\<exists>data. get_articles_data loads_table (\<lambda>indent v. ''[..]'') sample_directory
          = Inr (encode_utf8 ((\<lambda>indent v. ''[..]'') None (JList data)))
      \<and> length data = length (filter (str_contains ''annotated-synthetic-article'')
            (map fst sample_directory))
      \<and> (\<forall>i<length data. \<exists>text.
            map_of sample_directory
              (filter (str_contains ''annotated-synthetic-article'') (map fst sample_directory) ! i)
              = Some (File text)
            \<and> loads_table text = Some (data ! i))"
  by (rule get_articles_data_exports_all) (simp add: loads_table_def sample_directory_def)

lemma get_articles_data_example:
  "get_articles_data loads_table dumps sample_directory
   = Inr (encode_utf8 (dumps None (JList [JList [], JInt 123])))"
  by (simp add: get_articles_data_def read_file_def loads_table_def sample_directory_def)

subsection \<open>Submission\<close>

lemma check_metadata_shown:
  "truthy (fst (check_metadata md)) \<Longrightarrow> check_metadata md = (JObj md, [])"
  by (simp add: check_metadata_def split: if_splits)

text \<open>
  C7, as the code has it. On a submission (metadata accepted, button pressed, \<open>n\<close> the
  integer drawn for the file name, no directory of that name) the record written has
  exactly the keys \<^verbatim>\<open>article_data\<close>,
  \<^verbatim>\<open>edited_qas\<close>, \<^verbatim>\<open>qas\<close> and \<^verbatim>\<open>metadata\<close>; its metadata maps
  \<^verbatim>\<open>created_at\<close> to the timestamp and every other key to what the user entered.
\<close>

theorem submit_persists_record:
  assumes "truthy (fst (check_metadata (input_metadata inp)))"
    and "input_submit inp"
    and "randint 0 10000 r = Inr n"
    and "map_of d (save_file_name n) \<noteq> Some Dir"
  shows "submit_step dumps inp now r d article_data qas edited_qas =
           ([Button ''Submit''],
            AList.update (save_file_name n)
              (File (dumps None
                 (JObj [(''article_data'', article_data),
                        (''edited_qas'', edited_qas),
                        (''qas'', qas),
                        (''metadata'',
                           JObj (AList.update ''created_at'' (JFloat now) (input_metadata inp)))]))) d,
            None)
         \<and> map_of (AList.update ''created_at'' (JFloat now) (input_metadata inp)) ''created_at''
             = Some (JFloat now)
         \<and> (\<forall>k. k \<noteq> ''created_at'' \<longrightarrow>
               map_of (AList.update ''created_at'' (JFloat now) (input_metadata inp)) k
                 = map_of (input_metadata inp) k)"
proof -
  have cm: "check_metadata (input_metadata inp) = (JObj (input_metadata inp), [])"
    using assms(1) by (rule check_metadata_shown)
  have ne: "input_metadata inp \<noteq> []"
    using assms(1) by (auto simp: check_metadata_def split: if_splits)
  have "submit_step dumps inp now r d article_data qas edited_qas =
           ([Button ''Submit''],
            AList.update (save_file_name n)
              (File (dumps None
                 (JObj [(''article_data'', article_data),
                        (''edited_qas'', edited_qas),
                        (''qas'', qas),
                        (''metadata'',
                           JObj (AList.update ''created_at'' (JFloat now) (input_metadata inp)))]))) d,
            None)"
    using assms(2,4) ne
    by (auto simp: submit_step_def cm save_article_data_def assms(3) write_file_def
        annotated_record_def split: option.splits entry.splits)
  then show ?thesis by (simp add: update_conv')
qed

theorem submit_persists_record_witness:
  "truthy (fst (check_metadata (input_metadata sample_inputs)))
   \<and> input_submit sample_inputs
   \<and> randint 0 10000 7 = Inr 7
   \<and> map_of [] (save_file_name 7) \<noteq> Some Dir
   \<and> submit_step (\<lambda>indent v. ''{}'') sample_inputs (Finite 1) 7 [] JNull JNull JNull =
       ([Button ''Submit''], [(''annotated-synthetic-article7.json'', File ''{}'')], None)
   \<and> map_of (AList.update ''created_at'' (JFloat (Finite 1)) (input_metadata sample_inputs)) ''LLM''
       = Some (JStr ''gpt-x'')"
  using submit_persists_record [of sample_inputs 7 7 "[]" "\<lambda>indent v. ''{}''" "Finite 1" JNull JNull JNull]
  by (simp add: sample_inputs_def check_metadata_def save_file_name_def str_int_def str_nat.simps
      randint_def randbelow_def)

text \<open>
  C7 as stated fails: a metadata table with the row \<^verbatim>\<open>created_at = 'yesterday'\<close>
  passes the metadata check, and the record built from it maps \<^verbatim>\<open>created_at\<close> to the
  timestamp; the entered pair is not passed through.
\<close>

theorem created_at_entry_replaced:
  "truthy (fst (check_metadata [(''LLM'', JStr ''gpt-x''), (''created_at'', JStr ''yesterday'')]))
   \<and> annotated_record JNull JNull JNull
        [(''LLM'', JStr ''gpt-x''), (''created_at'', JStr ''yesterday'')] (Finite 1)
      = JObj [(''article_data'', JNull), (''edited_qas'', JNull), (''qas'', JNull),
              (''metadata'', JObj [(''LLM'', JStr ''gpt-x''), (''created_at'', JFloat (Finite 1))])]
   \<and> JFloat (Finite 1) \<noteq> JStr ''yesterday''"
  by (simp add: check_metadata_def annotated_record_def)

subsection \<open>The conditional blocks of the page\<close>

lemma check_qa_data_empty:
  "loads raw = Some (JList []) \<Longrightarrow> check_qa_data loads raw = Inr (JList [], [])"
  by (simp add: check_qa_data_def)

lemma check_categories_shown:
  "check_categories cs = (ok, shown) \<Longrightarrow> Markdown m \<notin> set shown"
  by (auto simp: check_categories_def Let_def split: if_splits)

lemma check_article_data_shown:
  "check_article_data loads raw = Inr (v, shown) \<Longrightarrow> Markdown m \<notin> set shown"
  by (auto simp: check_article_data_def split: option.splits sum.splits bool.splits)

lemma qa_step_empty_no_annotation:
  assumes "loads (input_qa_data inp) = Some (JList [])"
  shows "Markdown ''## Identify sensitive data''
           \<notin> set (fst (qa_step loads dumps inp now r d article_data))"
proof -
  have c: "check_qa_data loads (input_qa_data inp) = Inr (JList [], [])"
    using assms check_qa_data_empty [of loads "input_qa_data inp"] by simp
  show ?thesis
    by (auto simp: qa_step_def Let_def c split: sum.splits)
qed

lemma categories_step_empty_no_annotation:
  assumes "loads (input_qa_data inp) = Some (JList [])"
  shows "Markdown ''## Identify sensitive data''
           \<notin> set (fst (categories_step loads dumps inp now r d))"
proof (cases "check_categories (input_categories inp)")
  case (Pair ok shown1)
  note cc = check_categories_shown [OF Pair, of "''## Identify sensitive data''"]
  show ?thesis
  proof (cases "check_article_data loads (input_article_data inp)")
    case (Inl e)
    then show ?thesis using cc by (simp add: categories_step_def Pair Let_def)
  next
    case (Inr res)
    obtain v shown3 where res: "res = (v, shown3)" by (cases res)
    note ca = check_article_data_shown [OF Inr [unfolded res], of "''## Identify sensitive data''"]
    obtain shown4 d' e where q: "qa_step loads dumps inp now r d v = (shown4, d', e)"
      by (cases "qa_step loads dumps inp now r d v")
    have "Markdown ''## Identify sensitive data'' \<notin> set shown4"
      using assms qa_step_empty_no_annotation [of loads inp dumps now r d v] by (simp add: q)
    then show ?thesis using cc ca by (simp add: categories_step_def Pair Inr res q Let_def)
  qed
qed

lemma page_empty_no_annotation:
  assumes "loads (input_qa_data inp) = Some (JList [])"
  shows "Markdown ''## Identify sensitive data''
           \<notin> set (fst (page loads dumps inp now r d))"
proof -
  obtain shown2 d' e where c: "categories_step loads dumps inp now r d = (shown2, d', e)"
    by (cases "categories_step loads dumps inp now r d")
  have "Markdown ''## Identify sensitive data'' \<notin> set shown2"
    using assms categories_step_empty_no_annotation [of loads inp dumps now r d] by (simp add: c)
  then show ?thesis
    by (simp add: page_def Let_def c split: sum.splits)
qed

text \<open>
  C8. When the pasted Q&A text parses to the empty list, \<^verbatim>\<open>check_qa_data\<close> returns
  that list and shows no message. The list is falsy, so the block under the \<^verbatim>\<open>if\<close> does
  not run: with an article whose text is a string, the Q&A block ends at its text area,
  and no run of the page shows the heading of the annotation step.
\<close>

theorem empty_qa_list_stops_page:
  assumes "loads (input_qa_data inp) = Some (JList [])"
    and "py_getitem article_data ''article_text'' = Inr (JStr t)"
  shows "check_qa_data loads (input_qa_data inp) = Inr (JList [], [])
       \<and> \<not> truthy (JList [])
       \<and> (\<exists>prompt. build_qa_prompt dumps (JStr t) 10 = Inr prompt
            \<and> qa_step loads dumps inp now r d article_data =
                ([Markdown ''## Q&A Prompt'',
                  Markdown ''Copy-paste the following into your LLM and come back here.'',
                  Code prompt,
                  Markdown ''## Generated Q&A Pairs'',
                  Markdown ''Paste the output of the prompt here:'',
                  TextArea ''_Generated Q&A Pairs_''], d, None))
       \<and> Markdown ''## Identify sensitive data'' \<notin> set (fst (page loads dumps inp now r d))"
proof -
  have c: "check_qa_data loads (input_qa_data inp) = Inr (JList [], [])"
    using assms(1) check_qa_data_empty [of loads "input_qa_data inp"] by simp
  obtain prompt where p: "build_qa_prompt dumps (JStr t) 10 = Inr prompt"
    by (simp add: build_qa_prompt_def)
  have "qa_step loads dumps inp now r d article_data =
                ([Markdown ''## Q&A Prompt'',
                  Markdown ''Copy-paste the following into your LLM and come back here.'',
                  Code prompt,
                  Markdown ''## Generated Q&A Pairs'',
                  Markdown ''Paste the output of the prompt here:'',
                  TextArea ''_Generated Q&A Pairs_''], d, None)"
    by (simp add: qa_step_def assms(2) p c)
  moreover have "Markdown ''## Identify sensitive data''
           \<notin> set (fst (page loads dumps inp now r d))"
    using assms(1) page_empty_no_annotation [of loads inp dumps now r d] by simp
  ultimately show ?thesis using c p by simp
qed

theorem empty_qa_list_stops_page_witness:
  "loads_table (input_qa_data sample_inputs) = Some (JList [])
   \<and> py_getitem (JObj [(''article_text'', JStr ''t''), (''sensitive_category_to_instances'', JObj [])])
        ''article_text'' = Inr (JStr ''t'')
   \<and> check_qa_data loads_table (input_qa_data sample_inputs) = Inr (JList [], [])
   \<and> (\<exists>prompt. build_qa_prompt (\<lambda>indent v. ''{}'') (JStr ''t'') 10 = Inr prompt
        \<and> qa_step loads_table (\<lambda>indent v. ''{}'') sample_inputs (Finite 1) 7 sample_directory
            (JObj [(''article_text'', JStr ''t''), (''sensitive_category_to_instances'', JObj [])]) =
            ([Markdown ''## Q&A Prompt'',
              Markdown ''Copy-paste the following into your LLM and come back here.'',
              Code prompt,
              Markdown ''## Generated Q&A Pairs'',
              Markdown ''Paste the output of the prompt here:'',
              TextArea ''_Generated Q&A Pairs_''], sample_directory, None))
   \<and> Markdown ''## Identify sensitive data''
        \<notin> set (fst (page loads_table (\<lambda>indent v. ''{}'') sample_inputs (Finite 1) 7 sample_directory))"
  using empty_qa_list_stops_page [of loads_table sample_inputs
      "JObj [(''article_text'', JStr ''t''), (''sensitive_category_to_instances'', JObj [])]"
      "''t''" "\<lambda>indent v. ''{}''" "Finite 1" 7 sample_directory]
  by (simp add: sample_inputs_def loads_table_def)

lemma get_prompt_shows_list:
  "sublist (dumps (Some 2) (JList (map JStr (sensitive_categories self)))) (get_prompt dumps self)"
  unfolding get_prompt_def Let_def sublist_def
  by (metis append.assoc)

lemma sample_categories_accepted: "fst (check_categories (input_categories sample_inputs))"
  by (simp add: sample_inputs_def check_categories_def strip_def isspace_def)

text \<open>
  C10. \<^verbatim>\<open>check_categories\<close> hands back a truth value and nothing else: stripping and
  deduplication stay in its local lists. When the page reaches an accepted category
  list, the prompt it shows is built from the list the editor returned, as entered: the
  prompt contains \<^verbatim>\<open>json.dumps\<close> of exactly that list, padding and repetitions included.
\<close>

theorem prompt_built_from_original_categories:
  assumes "get_articles_data loads dumps d = Inr data"
    and "input_topic inp \<noteq> []"
    and "fst (check_categories (input_categories inp))"
  shows "Code (get_prompt dumps
                \<lparr>article_topic = input_topic inp,
                 sensitive_categories = input_categories inp,
                 num_words = 1000\<rparr>)
           \<in> set (fst (page loads dumps inp now r d))
       \<and> sublist (dumps (Some 2) (JList (map JStr (input_categories inp))))
           (get_prompt dumps
                \<lparr>article_topic = input_topic inp,
                 sensitive_categories = input_categories inp,
                 num_words = 1000\<rparr>)"
proof -
  let ?prompt = "get_prompt dumps
                \<lparr>article_topic = input_topic inp,
                 sensitive_categories = input_categories inp,
                 num_words = 1000\<rparr>"
  obtain shown1 where cc: "check_categories (input_categories inp) = (True, shown1)"
    using assms(3) by (cases "check_categories (input_categories inp)") simp
  have "Code ?prompt \<in> set (fst (categories_step loads dumps inp now r d))"
    by (simp add: categories_step_def cc Let_def split: sum.splits prod.splits)
  then have "Code ?prompt \<in> set (fst (page loads dumps inp now r d))"
    by (auto simp: page_def Let_def assms(1,2) split: prod.splits)
  moreover have "sublist (dumps (Some 2) (JList (map JStr (input_categories inp)))) ?prompt"
    using get_prompt_shows_list [of dumps "\<lparr>article_topic = input_topic inp,
                 sensitive_categories = input_categories inp,
                 num_words = 1000\<rparr>"] by simp
  ultimately show ?thesis by simp
qed

theorem prompt_built_from_original_categories_witness:
  "get_articles_data loads_table (\<lambda>indent v. ''{}'') sample_directory = Inr (encode_utf8 ''{}'')
   \<and> input_topic sample_inputs \<noteq> []
   \<and> fst (check_categories (input_categories sample_inputs))
   \<and> Code (get_prompt (\<lambda>indent v. ''{}'')
             \<lparr>article_topic = ''a medical record'',
              sensitive_categories =
                ['' Names'', ''Names'', ''Dates'', ''Diagnoses'', ''Addresses'', []],
              num_words = 1000\<rparr>)
        \<in> set (fst (page loads_table (\<lambda>indent v. ''{}'') sample_inputs (Finite 1) 7 sample_directory))"
proof -
  have g: "get_articles_data loads_table (\<lambda>indent v. ''{}'') sample_directory
             = Inr (encode_utf8 ''{}'')"
    using get_articles_data_example [of "\<lambda>indent v. ''{}''"] by simp
  have t: "input_topic sample_inputs \<noteq> []"
    by (simp add: sample_inputs_def)
  have c: "fst (check_categories (input_categories sample_inputs))"
    by (rule sample_categories_accepted)
  have i: "input_topic sample_inputs = ''a medical record''"
     "input_categories sample_inputs =
        ['' Names'', ''Names'', ''Dates'', ''Diagnoses'', ''Addresses'', []]"
    by (simp_all add: sample_inputs_def)
  show ?thesis
    using g t c
      prompt_built_from_original_categories [of loads_table "\<lambda>indent v. ''{}''" sample_directory
        "encode_utf8 ''{}''" sample_inputs "Finite 1" 7]
    unfolding i by simp
qed

text \<open>
  A whole run on the sample inputs: the categories pass although padded and repeated,
  the article document passes, the empty Q&A list passes and the run stops at the Q&A
  text area with nothing saved.
\<close>

lemma page_example:
  "page loads_table dumps sample_inputs now r sample_directory =
     ([Title ''Data Annotation'',
       Markdown (nl
         @ ''Come up with one topic that can contain sensitive data. '' @ nl
         @ ''The topic will be used to generate a synthetic article. '' @ nl
         @ ''Be creative with your topic!'' @ nl),
       TextInput ''_Topic choice_'',
       SetPageConfig,
       Sidebar (Markdown ''# Download Annotated Data''),
       Sidebar (DownloadButton (encode_utf8 (dumps None (JList [JList [], JInt 123])))),
       Markdown (''Come up with at least 4 categories of personal information that should appear in a synthetic article about ''
         @ [CHR 0x22] @ ''a medical record'' @ [CHR 0x22] @ ''.''),
       DataEditor (JList [JStr ''Names of ...'']),
       Markdown ''## Article Generation prompt'',
       Markdown (nl
         @ ''        Please review the following prompt before copy-pasting it into your ''
         @ nl
         @ ''        favorite LLM chat service. When you're done, come back here.''
         @ nl @ ''        ''),
       Code (get_prompt dumps
               \<lparr>article_topic = ''a medical record'',
                sensitive_categories =
                  ['' Names'', ''Names'', ''Dates'', ''Diagnoses'', ''Addresses'', []],
                num_words = 1000\<rparr>),
       Markdown ''## Generated Article'',
       Markdown ''Paste the output of the prompt here:'',
       TextArea ''_Generated article data_'',
       Markdown ''## Q&A Prompt'',
       Markdown ''Copy-paste the following into your LLM and come back here.'',
       Code (projr (build_qa_prompt dumps (JStr ''t'') 10)),
       Markdown ''## Generated Q&A Pairs'',
       Markdown ''Paste the output of the prompt here:'',
       TextArea ''_Generated Q&A Pairs_''],
      sample_directory, None)"
proof -
  have g: "get_articles_data loads_table dumps sample_directory
             = Inr (encode_utf8 (dumps None (JList [JList [], JInt 123])))"
    by (rule get_articles_data_example)
  have cc: "check_categories (input_categories sample_inputs) = (True, [])"
    by (simp add: sample_inputs_def check_categories_def strip_def isspace_def)
  have ca: "check_article_data loads_table (input_article_data sample_inputs) =
              Inr (JObj [(''article_text'', JStr ''t''),
                         (''sensitive_category_to_instances'', JObj [])], [])"
    by (simp add: sample_inputs_def check_article_data_def loads_table_def)
  have cq: "check_qa_data loads_table (input_qa_data sample_inputs) = Inr (JList [], [])"
    by (simp add: sample_inputs_def check_qa_data_def loads_table_def)
  obtain prompt where p: "build_qa_prompt dumps (JStr ''t'') 10 = Inr prompt"
    by (simp add: build_qa_prompt_def)
  have q: "qa_step loads_table dumps sample_inputs now r sample_directory
             (JObj [(''article_text'', JStr ''t''), (''sensitive_category_to_instances'', JObj [])])
           = ([Markdown ''## Q&A Prompt'',
               Markdown ''Copy-paste the following into your LLM and come back here.'',
               Code prompt,
               Markdown ''## Generated Q&A Pairs'',
               Markdown ''Paste the output of the prompt here:'',
               TextArea ''_Generated Q&A Pairs_''], sample_directory, None)"
    by (simp add: qa_step_def p cq)
  have c: "categories_step loads_table dumps sample_inputs now r sample_directory =
     ([Markdown ''## Article Generation prompt'',
       Markdown (nl
         @ ''        Please review the following prompt before copy-pasting it into your ''
         @ nl
         @ ''        favorite LLM chat service. When you're done, come back here.''
         @ nl @ ''        ''),
       Code (get_prompt dumps
               \<lparr>article_topic = ''a medical record'',
                sensitive_categories =
                  ['' Names'', ''Names'', ''Dates'', ''Diagnoses'', ''Addresses'', []],
                num_words = 1000\<rparr>),
       Markdown ''## Generated Article'',
       Markdown ''Paste the output of the prompt here:'',
       TextArea ''_Generated article data_'',
       Markdown ''## Q&A Prompt'',
       Markdown ''Copy-paste the following into your LLM and come back here.'',
       Code prompt,
       Markdown ''## Generated Q&A Pairs'',
       Markdown ''Paste the output of the prompt here:'',
       TextArea ''_Generated Q&A Pairs_''],
      sample_directory, None)"
    by (simp add: categories_step_def cc ca q) (simp add: sample_inputs_def)
  have t: "input_topic sample_inputs = ''a medical record''"
    by (simp add: sample_inputs_def)
  show ?thesis
    by (simp add: page_def g c p t)
qed

end
